theory Spec2Isabelle
  imports Complex_Main
begin

section \<open>The live voice session of ChatWidget.tsx\<close>

text \<open>
  The component keeps its session in React state and in refs, and everything happens in
  callbacks that the browser runs to completion one after the other: button clicks, the
  continuations of the three \<^verbatim>\<open>await\<close>s and of \<^verbatim>\<open>sessionPromise.then\<close>, the callbacks of the
  live connection, the audio processing callback and timers. The model is a record of the
  state and the refs, one function per callback or continuation, and a \<open>step\<close> function that
  dispatches an event to it. What the callbacks ask of the browser (timers, handles of audio
  nodes, open connections, continuations that wait) is part of the record as well, and the
  calls that leave the component are kept in logs.

  Times are the readings of two clocks: \<^verbatim>\<open>Date.now()\<close> in milliseconds (an \<open>int\<close>), which
  also stamps timers, and \<^verbatim>\<open>currentTime\<close> of the output audio context in seconds. Samples,
  durations and the readings of the audio clock are IEEE doubles in the source. A double is
  the real number it stands for here; comparisons and \<^verbatim>\<open>Math.max\<close> of doubles are exact, and
  the operations that round (sum, product, quotient, square root) are parameters of the
  environment, so that nothing below depends on how they round.
\<close>

subsection \<open>Constants\<close>

text \<open>The literal \<^verbatim>\<open>0.01\<close> of the source is the double nearest to one hundredth, which is
  \<open>5764607523034235 / 2\<^sup>5\<^sup>9\<close>, a little more than one hundredth.\<close>

definition hundredth :: real where
  "hundredth = 5764607523034235 / 576460752303423488"

definition SILENCE_THRESHOLD :: real where
  "SILENCE_THRESHOLD = hundredth"

definition SPEECH_HANGOVER_MS :: int where
  "SPEECH_HANGOVER_MS = 800"

definition IDLE_TIMEOUT_MS :: int where
  "IDLE_TIMEOUT_MS = 90000"

subsection \<open>Transcript and server messages (types.ts)\<close>

datatype role = User | Model | System

record source_link =
  title :: string
  uri :: string

record ChatMessage =
  msgId :: string
  role :: role
  msgText :: string
  timestamp :: int
  sources :: "source_link list option"

text \<open>
  A grounding chunk is an object whose \<^verbatim>\<open>web\<close> member may be missing, and whose \<^verbatim>\<open>uri\<close>
  and \<^verbatim>\<open>title\<close> may be missing or empty.
\<close>

record web_chunk =
  webUri :: "string option"
  webTitle :: "string option"

type_synonym grounding_chunk = "web_chunk option"

text \<open>
  The parts of a \<^verbatim>\<open>LiveServerMessage\<close> that \<^verbatim>\<open>onmessage\<close> reads: the base64 audio of the first
  part of the model turn, the grounding chunks and the turn-complete flag.
\<close>

record LiveServerMessage =
  inlineData :: "string option"
  groundingChunks :: "grounding_chunk list option"
  turnComplete :: bool

text \<open>\<^verbatim>\<open>v || d\<close> for an optional string: a missing or empty value gives the default.\<close>

definition orDefault :: "string option \<Rightarrow> string \<Rightarrow> string" where
  "orDefault v d = (case v of None \<Rightarrow> d | Some x \<Rightarrow> if x = [] then d else x)"

text \<open>The \<^verbatim>\<open>forEach\<close> of \<^verbatim>\<open>onmessage\<close> that pushes one source per chunk with a usable uri.\<close>

fun collectSources :: "grounding_chunk list \<Rightarrow> source_link list" where
  "collectSources [] = []"
| "collectSources (None # cs) = collectSources cs"
| "collectSources (Some w # cs) =
     (case webUri w of
        None \<Rightarrow> collectSources cs
      | Some u \<Rightarrow>
          if u = [] then collectSources cs
          else \<lparr>title = orDefault (webTitle w) ''Source'', uri = u\<rparr> # collectSources cs)"

text \<open>
  The updater passed to \<^verbatim>\<open>setMessages\<close>: the last entry, when there is one and it is the
  model's, is replaced by a copy with the new sources.
\<close>

definition attachSources :: "source_link list \<Rightarrow> ChatMessage list \<Rightarrow> ChatMessage list" where
  "attachSources newSources prev =
     (if prev = [] then prev
      else if role (last prev) = Model
        then butlast prev @ [(last prev)\<lparr>sources := Some newSources\<rparr>]
        else prev)"


subsection \<open>The state of the component and of the browser around it\<close>

datatype conn_status = disconnected | connecting | connected | reconnecting

datatype ctx_state = suspended | running | closed

record audio_context =
  ctxId :: nat
  ctxState :: ctx_state

text \<open>
  The three timers of the source: the idle timeout of \<^verbatim>\<open>resetIdleTimer\<close>, the keep-alive
  interval, and the delayed attachment of the microphone, whose callback closes over the
  session promise of the connection that opened.
\<close>

datatype timer_kind = IdleTimer | KeepAliveTimer | MicAttachTimer nat

record timer =
  timerId :: nat
  due :: int
  kind :: timer_kind

text \<open>
  A script processor that is connected: its handle, the input context it belongs to, and the
  session its \<^verbatim>\<open>onaudioprocess\<close> closure sends to.
\<close>

record processor =
  procId :: nat
  procCtx :: nat
  procSession :: nat

text \<open>What is passed to \<^verbatim>\<open>session.sendRealtimeInput\<close>: the greeting instruction, or the blob
  that \<^verbatim>\<open>createBlob\<close> builds from a frame (its encoding is in audioUtils, which is not part of
  the sources; the frame stands for it).\<close>

datatype payload = TextContent string | MediaBlob "real list"

text \<open>A continuation registered with \<^verbatim>\<open>then\<close> on a session promise: one that sends, or the one
  of \<^verbatim>\<open>stopLiveSession\<close> that closes the session.\<close>

datatype job = SendJob payload | CloseJob

datatype release_op =
    ClearInterval nat
  | ClearTimeout nat
  | SessionClose nat
  | TracksStop nat
  | ProcessorDisconnect nat
  | SourceStop nat
  | ContextClose nat

text \<open>The zero-gain tone of the keep-alive: frequency, gain, start and stop time.\<close>

record tone =
  frequency :: real
  gain :: real
  startAt :: real
  stopAt :: real

text \<open>
  An \<^verbatim>\<open>onmessage\<close> that waits at \<^verbatim>\<open>await decodeAudioData\<close>: a handle for the pending decode,
  the message (the rest of the handler reads it), and the reading of the audio clock that
  the handler took before it waited.
\<close>

record pending_decode =
  decodeId :: nat
  decodeMessage :: LiveServerMessage
  decodeArrived :: real

text \<open>One call of \<^verbatim>\<open>source.start\<close>: the reading of the audio clock when the chunk arrived and
  the reading at the call, the handle of the source, the decode it plays, the start offset
  and the duration of the buffer.\<close>

record playback =
  arrivedAt :: real
  calledAt :: real
  handle :: nat
  chunk :: nat
  startTime :: real
  duration :: real

record widget =
  \<comment> \<open>React state\<close>
  messages :: "ChatMessage list"
  isLiveActive :: bool
  connectionStatus :: conn_status
  errorMsg :: "string option"
  \<comment> \<open>refs\<close>
  sessionPromiseRef :: "nat option"
  inputContextRef :: "audio_context option"
  outputContextRef :: "audio_context option"
  nextStartTimeRef :: real
  sourcesRef :: "nat list"
  streamRef :: "nat option"
  scriptProcessorRef :: "nat option"
  keepAliveIntervalRef :: "nat option"
  isUserDisconnectingRef :: bool
  lastSpeechTimeRef :: int
  idleTimerRef :: "nat option"
  \<comment> \<open>the browser: pending timers, fresh handles, pending permission requests,
      connected processors, open connections, open capture streams, handlers that wait
      for a decode, and continuations that wait on a session promise\<close>
  timers :: "timer list"
  nextId :: nat
  pendingMic :: nat
  processors :: "processor list"
  transports :: "nat list"
  captures :: "nat list"
  decoding :: "pending_decode list"
  thens :: "(nat \<times> job) list"
  \<comment> \<open>what has left the component, in order\<close>
  outbox :: "(int \<times> nat \<times> payload) list"
  delivered :: "(nat \<times> payload) list"
  scheduled :: "playback list"
  released :: "(release_op \<times> bool) list"
  tones :: "tone list"
  console :: "string list"

text \<open>
  The parts of the environment that decide what a call does: the four double operations
  that round; whether the call \<^verbatim>\<open>decodeAudioData(decode(base64Audio), ctx)\<close> of audioUtils (not
  part of the sources) throws before it returns a promise; which calls that release
  something throw; and whether \<^verbatim>\<open>sendRealtimeInput\<close> of a session throws.
\<close>

record browser =
  fadd :: "real \<Rightarrow> real \<Rightarrow> real"
  fmul :: "real \<Rightarrow> real \<Rightarrow> real"
  fdiv :: "real \<Rightarrow> real \<Rightarrow> real"
  fsqrt :: "real \<Rightarrow> real"
  decodeThrows :: "string \<Rightarrow> bool"
  callThrows :: "release_op \<Rightarrow> bool"
  sendThrows :: "nat \<Rightarrow> bool"

text \<open>A freshly mounted component. Handles start at 1: the source tests them for
  truthiness, and the browser hands out positive timer ids.\<close>

definition initial :: widget where
  "initial = \<lparr>messages = [], isLiveActive = False, connectionStatus = disconnected,
     errorMsg = None, sessionPromiseRef = None, inputContextRef = None,
     outputContextRef = None, nextStartTimeRef = 0, sourcesRef = [], streamRef = None,
     scriptProcessorRef = None, keepAliveIntervalRef = None, isUserDisconnectingRef = False,
     lastSpeechTimeRef = 0, idleTimerRef = None, timers = [], nextId = 1, pendingMic = 0,
     processors = [], transports = [], captures = [], decoding = [], thens = [],
     outbox = [], delivered = [], scheduled = [], released = [], tones = [], console = []\<rparr>"

subsection \<open>Volume of a frame\<close>

text \<open>
  \<^verbatim>\<open>calculateRMS\<close>: the loop adds the squares in double arithmetic, then the root of the mean
  is taken. The samples of a \<^verbatim>\<open>Float32Array\<close> are doubles as they are, and so is the length.
  On an empty buffer the source divides zero by zero and gets NaN, which is \<open>None\<close> here;
  every comparison with NaN is false.
\<close>

definition calculateRMS :: "browser \<Rightarrow> real list \<Rightarrow> real option" where
  "calculateRMS b inputData =
     (if inputData = [] then None
      else Some (fsqrt b (fdiv b (fold (\<lambda>x sum. fadd b sum (fmul b x x)) inputData 0)
                                 (real (length inputData)))))"

text \<open>\<^verbatim>\<open>rms > SILENCE_THRESHOLD\<close>\<close>

definition aboveThreshold :: "browser \<Rightarrow> real list \<Rightarrow> bool" where
  "aboveThreshold b inputData =
     (case calculateRMS b inputData of None \<Rightarrow> False | Some rms \<Rightarrow> rms > SILENCE_THRESHOLD)"

subsection \<open>Timers\<close>

definition setTimer :: "int \<Rightarrow> timer_kind \<Rightarrow> widget \<Rightarrow> widget" where
  "setTimer d k s =
     s\<lparr>timers := timers s @ [\<lparr>timerId = nextId s, due = d, kind = k\<rparr>],
       nextId := Suc (nextId s)\<rparr>"

definition clearTimeout :: "nat \<Rightarrow> widget \<Rightarrow> widget" where
  "clearTimeout h s =
     s\<lparr>timers := filter (\<lambda>tm. timerId tm \<noteq> h) (timers s),
       released := released s @ [(ClearTimeout h, False)]\<rparr>"

subsection \<open>Teardown: stopLiveSession\<close>

text \<open>
  \<^verbatim>\<open>stopLiveSession\<close> is a sequence of calls, two of which stand in a \<^verbatim>\<open>try\<close> block. A call that
  throws outside a \<^verbatim>\<open>try\<close> block ends the function there, with what has been done so far.
  The browser's interfaces say that none of \<^verbatim>\<open>clearInterval\<close>, \<^verbatim>\<open>clearTimeout\<close>, \<^verbatim>\<open>stop\<close> of a
  track, \<^verbatim>\<open>disconnect\<close> and \<^verbatim>\<open>close\<close> of a context throws; the environment of the model can make
  any of them throw all the same, which shows what the \<^verbatim>\<open>try\<close> blocks cover. The log of the
  release calls tells for each call whether it threw.
\<close>

datatype outcome = Returned widget | Thrown widget

fun stateOf :: "outcome \<Rightarrow> widget" where
  "stateOf (Returned s) = s"
| "stateOf (Thrown s) = s"

fun andThen :: "outcome \<Rightarrow> (widget \<Rightarrow> outcome) \<Rightarrow> outcome" where
  "andThen (Returned s) f = f s"
| "andThen (Thrown s) f = Thrown s"


text \<open>A call outside a \<^verbatim>\<open>try\<close> block, followed by the statements \<open>rest\<close>.\<close>

definition invoke :: "browser \<Rightarrow> release_op \<Rightarrow> (widget \<Rightarrow> widget) \<Rightarrow> widget \<Rightarrow> outcome" where
  "invoke b op rest s =
     (if callThrows b op
      then Thrown (s\<lparr>released := released s @ [(op, True)]\<rparr>)
      else Returned (rest (s\<lparr>released := released s @ [(op, False)]\<rparr>)))"

definition cancelKeepAlive :: "browser \<Rightarrow> widget \<Rightarrow> outcome" where
  "cancelKeepAlive b s =
     (case keepAliveIntervalRef s of
        None \<Rightarrow> Returned s
      | Some h \<Rightarrow>
          invoke b (ClearInterval h)
            (\<lambda>s. s\<lparr>timers := filter (\<lambda>tm. timerId tm \<noteq> h) (timers s),
                    keepAliveIntervalRef := None\<rparr>) s)"

definition cancelIdleTimer :: "browser \<Rightarrow> widget \<Rightarrow> outcome" where
  "cancelIdleTimer b s =
     (case idleTimerRef s of
        None \<Rightarrow> Returned s
      | Some h \<Rightarrow>
          invoke b (ClearTimeout h)
            (\<lambda>s. s\<lparr>timers := filter (\<lambda>tm. timerId tm \<noteq> h) (timers s),
                    idleTimerRef := None\<rparr>) s)"

text \<open>
  \<^verbatim>\<open>sessionPromiseRef.current.then(session => { try { session.close(); } catch(e) {} })\<close>: the
  closing is registered as a continuation of the session promise, and the ref is cleared.
  The continuation runs once the promise is resolved, and not before the rest of
  \<^verbatim>\<open>stopLiveSession\<close> has run.
\<close>

definition registerClose :: "widget \<Rightarrow> outcome" where
  "registerClose s =
     (case sessionPromiseRef s of
        None \<Rightarrow> Returned s
      | Some sid \<Rightarrow> Returned (s\<lparr>thens := thens s @ [(sid, CloseJob)], sessionPromiseRef := None\<rparr>))"

definition stopTracks :: "browser \<Rightarrow> widget \<Rightarrow> outcome" where
  "stopTracks b s =
     (case streamRef s of
        None \<Rightarrow> Returned s
      | Some st \<Rightarrow>
          invoke b (TracksStop st)
            (\<lambda>s. s\<lparr>captures := filter (\<lambda>x. x \<noteq> st) (captures s), streamRef := None\<rparr>) s)"

definition disconnectProcessor :: "browser \<Rightarrow> widget \<Rightarrow> outcome" where
  "disconnectProcessor b s =
     (case scriptProcessorRef s of
        None \<Rightarrow> Returned s
      | Some p \<Rightarrow>
          invoke b (ProcessorDisconnect p)
            (\<lambda>s. s\<lparr>processors := filter (\<lambda>x. procId x \<noteq> p) (processors s),
                    scriptProcessorRef := None\<rparr>) s)"

text \<open>\<^verbatim>\<open>sourcesRef.current.forEach(source => { try { source.stop(); } catch(e) {} })\<close>, then the
  set is cleared and the scheduler's cursor goes back to zero.\<close>

definition stopSources :: "browser \<Rightarrow> widget \<Rightarrow> outcome" where
  "stopSources b s =
     Returned
       (s\<lparr>released := released s @ map (\<lambda>h. (SourceStop h, callThrows b (SourceStop h))) (sourcesRef s),
          sourcesRef := [],
          nextStartTimeRef := 0\<rparr>)"

text \<open>Closing a context also silences the processors that live in it.\<close>

definition closeInputContext :: "browser \<Rightarrow> widget \<Rightarrow> outcome" where
  "closeInputContext b s =
     (case inputContextRef s of
        None \<Rightarrow> Returned s
      | Some c \<Rightarrow>
          invoke b (ContextClose (ctxId c))
            (\<lambda>s. s\<lparr>processors := filter (\<lambda>x. procCtx x \<noteq> ctxId c) (processors s),
                    inputContextRef := None\<rparr>) s)"

definition closeOutputContext :: "browser \<Rightarrow> widget \<Rightarrow> outcome" where
  "closeOutputContext b s =
     (case outputContextRef s of
        None \<Rightarrow> Returned s
      | Some c \<Rightarrow> invoke b (ContextClose (ctxId c)) (\<lambda>s. s\<lparr>outputContextRef := None\<rparr>) s)"

definition stopLiveSession :: "browser \<Rightarrow> bool \<Rightarrow> widget \<Rightarrow> outcome" where
  "stopLiveSession b userInitiated s =
     (let s1 = (if userInitiated then s\<lparr>isUserDisconnectingRef := True, errorMsg := None\<rparr>
                else s);
          s2 = s1\<lparr>isLiveActive := False, connectionStatus := disconnected\<rparr>
      in andThen (andThen (andThen (andThen (andThen (andThen (andThen
           (cancelKeepAlive b s2)
           (cancelIdleTimer b))
           registerClose)
           (stopTracks b))
           (disconnectProcessor b))
           (stopSources b))
           (closeInputContext b))
           (closeOutputContext b))"

subsection \<open>The idle timer\<close>

definition resetIdleTimer :: "int \<Rightarrow> widget \<Rightarrow> widget" where
  "resetIdleTimer now s =
     (let s1 = (case idleTimerRef s of None \<Rightarrow> s | Some h \<Rightarrow> clearTimeout h s)
      in (setTimer (now + IDLE_TIMEOUT_MS) IdleTimer s1)\<lparr>idleTimerRef := Some (nextId s1)\<rparr>)"

text \<open>The callback of the idle timeout. \<^verbatim>\<open>stopLiveSession(false)\<close> is its last statement, as it
  is the last statement of every callback that calls it, so that an exception that leaves
  it skips nothing else.\<close>

definition idleExpired :: "browser \<Rightarrow> widget \<Rightarrow> widget" where
  "idleExpired b s =
     (let s1 = s\<lparr>console := console s @ [''Idle timeout reached - closing session'']\<rparr>;
          s2 = (if \<not> isUserDisconnectingRef s1
                then s1\<lparr>errorMsg := Some ''Session ended due to inactivity.''\<rparr>
                else s1)
      in stateOf (stopLiveSession b False s2))"

subsection \<open>Starting a session\<close>

text \<open>
  \<^verbatim>\<open>startLiveSession\<close> up to \<^verbatim>\<open>await navigator.mediaDevices.getUserMedia\<close>. Its arguments
  are the clock, whether an API key is configured, and the state in which the browser
  creates the output context (a suspended one is resumed on the spot). The request for the
  microphone is then pending; nothing in the source cancels it, so its continuation runs
  whatever happens in between.
\<close>

definition startLiveSession :: "int \<Rightarrow> bool \<Rightarrow> ctx_state \<Rightarrow> widget \<Rightarrow> widget" where
  "startLiveSession now apiKey fresh s =
     (if isLiveActive s then s
      else if \<not> apiKey
        then s\<lparr>errorMsg := Some ''Missing API Key. Please configure process.env.API_KEY.''\<rparr>
      else
        let s1 = s\<lparr>errorMsg := None, connectionStatus := connecting, isLiveActive := True,
                   isUserDisconnectingRef := False, lastSpeechTimeRef := now\<rparr>;
            s2 = resetIdleTimer now s1;
            s3 = s2\<lparr>inputContextRef := Some \<lparr>ctxId = nextId s2, ctxState = running\<rparr>,
                    outputContextRef := Some \<lparr>ctxId = Suc (nextId s2),
                       ctxState = (if fresh = suspended then running else fresh)\<rparr>,
                    nextId := Suc (Suc (nextId s2))\<rparr>;
            s4 = (setTimer (now + 4000) KeepAliveTimer s3)
                   \<lparr>keepAliveIntervalRef := Some (nextId s3)\<rparr>
        in s4\<lparr>pendingMic := Suc (pendingMic s4)\<rparr>)"

text \<open>
  The continuation when the microphone is granted: the stream is stored and the live
  connection is requested; the promise of the session is stored in the ref.
\<close>

definition micGranted :: "widget \<Rightarrow> widget" where
  "micGranted s =
     (if pendingMic s = 0 then s
      else
        s\<lparr>pendingMic := pendingMic s - 1,
          streamRef := Some (nextId s),
          captures := captures s @ [nextId s],
          sessionPromiseRef := Some (Suc (nextId s)),
          transports := transports s @ [Suc (nextId s)],
          nextId := Suc (Suc (nextId s))\<rparr>)"

text \<open>
  The continuation when \<^verbatim>\<open>getUserMedia\<close> rejects with an error of the given name and message:
  the \<^verbatim>\<open>catch\<close> block of \<^verbatim>\<open>startLiveSession\<close>. It sets the status, the flag and the message,
  and releases nothing: the keep-alive interval, the idle timeout and the two contexts of
  the failed start stay as they are.
\<close>

definition micDenied :: "string \<Rightarrow> string option \<Rightarrow> widget \<Rightarrow> widget" where
  "micDenied name message s =
     (if pendingMic s = 0 then s
      else
        let m = (if name = ''NotAllowedError'' \<or> name = ''PermissionDeniedError''
                 then Some ''Microphone access denied. Please check browser permissions.''
                 else message)
        in s\<lparr>pendingMic := pendingMic s - 1,
             console := console s @ [''Failed to start live session:''],
             connectionStatus := disconnected,
             isLiveActive := False,
             errorMsg := Some (''Connection failed: '' @ orDefault m ''Unknown error'')\<rparr>)"

subsection \<open>The callbacks of the connection\<close>

definition greeting :: string where
  "greeting = ''Speak with a strong British accent. Say exactly: '' @ [CHR 0x27] @
     ''Hi, how can I help you?'' @ [CHR 0x27]"

text \<open>
  \<^verbatim>\<open>sessionPromise.then(session => session.sendRealtimeInput(...))\<close>: the send is registered as
  a continuation of the session promise. The outbox is the log of these registrations, with
  the time of each; the continuations of one promise run in the order in which they were
  registered.
\<close>

definition sendRealtimeInput :: "int \<Rightarrow> nat \<Rightarrow> payload \<Rightarrow> widget \<Rightarrow> widget" where
  "sendRealtimeInput now sid p s =
     s\<lparr>outbox := outbox s @ [(now, sid, p)], thens := thens s @ [(sid, SendJob p)]\<rparr>"

definition onopen :: "int \<Rightarrow> nat \<Rightarrow> widget \<Rightarrow> widget" where
  "onopen now sid s =
     (let s1 = s\<lparr>console := console s @ [''Session opened''], connectionStatus := connected\<rparr>;
          s2 = sendRealtimeInput now sid (TextContent greeting) s1
      in setTimer (now + 800) (MicAttachTimer sid) s2)"

text \<open>The callback of the 800 ms timeout set by \<^verbatim>\<open>onopen\<close>.\<close>

definition attachMicrophone :: "nat \<Rightarrow> widget \<Rightarrow> widget" where
  "attachMicrophone sid s =
     (case inputContextRef s of
        None \<Rightarrow> s
      | Some c \<Rightarrow>
          if streamRef s = None then s
          else if isUserDisconnectingRef s then s
          else
            s\<lparr>scriptProcessorRef := Some (nextId s),
              processors := processors s @
                 [\<lparr>procId = nextId s, procCtx = ctxId c, procSession = sid\<rparr>],
              nextId := Suc (nextId s)\<rparr>)"

text \<open>\<^verbatim>\<open>processor.onaudioprocess\<close> of the processor that sends to session \<open>sid\<close>.\<close>

definition onaudioprocess :: "browser \<Rightarrow> int \<Rightarrow> nat \<Rightarrow> real list \<Rightarrow> widget \<Rightarrow> widget" where
  "onaudioprocess b now sid inputData s =
     (let s1 = (if aboveThreshold b inputData
                then resetIdleTimer now (s\<lparr>lastSpeechTimeRef := now\<rparr>)
                else s)
      in if now - lastSpeechTimeRef s1 < SPEECH_HANGOVER_MS
         then sendRealtimeInput now sid (MediaBlob inputData) s1
         else s1)"

text \<open>
  The continuations of the session promise. The one that sends a frame catches and logs
  what \<^verbatim>\<open>sendRealtimeInput\<close> throws; the one that sends the greeting does not catch; the one
  that closes catches and ignores. A session that was closed without an exception is no
  longer open.
\<close>

fun runJob :: "browser \<Rightarrow> nat \<times> job \<Rightarrow> widget \<Rightarrow> widget" where
  "runJob b (sid, SendJob (MediaBlob xs)) s =
     (let s1 = s\<lparr>delivered := delivered s @ [(sid, MediaBlob xs)]\<rparr>
      in if sendThrows b sid then s1\<lparr>console := console s1 @ [''Error sending audio:'']\<rparr> else s1)"
| "runJob b (sid, SendJob (TextContent x)) s =
     s\<lparr>delivered := delivered s @ [(sid, TextContent x)]\<rparr>"
| "runJob b (sid, CloseJob) s =
     (if callThrows b (SessionClose sid)
      then s\<lparr>released := released s @ [(SessionClose sid, True)]\<rparr>
      else s\<lparr>released := released s @ [(SessionClose sid, False)],
             transports := filter (\<lambda>x. x \<noteq> sid) (transports s)\<rparr>)"

text \<open>The promise of session \<open>sid\<close> is resolved: the continuations that were registered on it
  run, in the order of their registration.\<close>

definition promiseJobs :: "browser \<Rightarrow> nat \<Rightarrow> widget \<Rightarrow> widget" where
  "promiseJobs b sid s =
     fold (runJob b) (filter (\<lambda>j. fst j = sid) (thens s))
       (s\<lparr>thens := filter (\<lambda>j. fst j \<noteq> sid) (thens s)\<rparr>)"

text \<open>The second block of \<^verbatim>\<open>onmessage\<close>: grounding chunks that yield at least one source.\<close>

definition citationBranch :: "LiveServerMessage \<Rightarrow> widget \<Rightarrow> widget" where
  "citationBranch message s =
     (case groundingChunks message of
        None \<Rightarrow> s
      | Some gs \<Rightarrow>
          if length gs > 0
          then
            let newSources = collectSources gs
            in if length newSources > 0
               then s\<lparr>messages := attachSources newSources (messages s)\<rparr>
               else s
          else s)"

text \<open>
  \<^verbatim>\<open>onmessage\<close> up to \<^verbatim>\<open>await decodeAudioData\<close>. With audio, and while the output context exists,
  the idle timer is reset and the cursor of the scheduler is raised to the reading of the
  audio clock; then the handler waits for the decode, unless the call throws at once, which
  is logged. Without audio, or after such a throw, the handler goes on to its second block
  at once.
\<close>

definition onmessage :: "browser \<Rightarrow> int \<Rightarrow> real \<Rightarrow> LiveServerMessage \<Rightarrow> widget \<Rightarrow> widget" where
  "onmessage b now currentTime message s =
     (case inlineData message of
        None \<Rightarrow> citationBranch message s
      | Some a \<Rightarrow>
          if a \<noteq> [] \<and> outputContextRef s \<noteq> None
          then
            let s1 = resetIdleTimer now s;
                s2 = s1\<lparr>nextStartTimeRef := max (nextStartTimeRef s1) currentTime\<rparr>
            in if decodeThrows b a
               then citationBranch message (s2\<lparr>console := console s2 @ [''Audio decode error:'']\<rparr>)
               else s2\<lparr>decoding := decoding s2 @
                          [\<lparr>decodeId = nextId s2, decodeMessage = message,
                            decodeArrived = currentTime\<rparr>],
                       nextId := Suc (nextId s2)\<rparr>
          else citationBranch message s)"

text \<open>
  The rest of \<^verbatim>\<open>onmessage\<close>, when the decode \<open>k\<close> it waits for has settled: with the duration
  of the decoded buffer, or with \<open>None\<close> when the promise was rejected or a statement of the
  \<^verbatim>\<open>try\<close> block threw. The source is started at the cursor as it is now, the cursor advances
  by the duration (a double addition), and the source joins the set. Nothing here looks at
  whether the session is still the one in which the chunk arrived. Then comes the second
  block of the handler.
\<close>

definition decodeSettled :: "browser \<Rightarrow> real \<Rightarrow> nat \<Rightarrow> real option \<Rightarrow> widget \<Rightarrow> widget" where
  "decodeSettled b currentTime k r s =
     (case find (\<lambda>d. decodeId d = k) (decoding s) of
        None \<Rightarrow> s
      | Some pd \<Rightarrow>
          let s1 = s\<lparr>decoding := filter (\<lambda>d. decodeId d \<noteq> k) (decoding s)\<rparr>;
              s2 = (case r of
                      None \<Rightarrow> s1\<lparr>console := console s1 @ [''Audio decode error:'']\<rparr>
                    | Some d \<Rightarrow>
                        s1\<lparr>scheduled := scheduled s1 @
                              [\<lparr>arrivedAt = decodeArrived pd, calledAt = currentTime,
                                handle = nextId s1, chunk = k,
                                startTime = nextStartTimeRef s1, duration = d\<rparr>],
                           nextStartTimeRef := fadd b (nextStartTimeRef s1) d,
                           sourcesRef := sourcesRef s1 @ [nextId s1],
                           nextId := Suc (nextId s1)\<rparr>)
          in citationBranch (decodeMessage pd) s2)"

text \<open>
  \<^verbatim>\<open>onclose\<close> of the connection \<open>sid\<close>, which is no longer open then, and \<^verbatim>\<open>onerror\<close> with the
  message of the error, if it has one. Neither looks at which connection it belongs to: both
  read the flag and tear down whatever the refs hold when they run.
\<close>

definition onclose :: "browser \<Rightarrow> nat \<Rightarrow> widget \<Rightarrow> widget" where
  "onclose b sid s =
     (let s0 = s\<lparr>transports := filter (\<lambda>x. x \<noteq> sid) (transports s)\<rparr>;
          s1 = s0\<lparr>console := console s0 @ [''Session closed'']\<rparr>;
          s2 = (if \<not> isUserDisconnectingRef s1
                then s1\<lparr>errorMsg := Some ''Session timed out. Please resume.''\<rparr>
                else s1)
      in stateOf (stopLiveSession b False s2))"

definition onerror :: "browser \<Rightarrow> string option \<Rightarrow> widget \<Rightarrow> widget" where
  "onerror b message s =
     (let s1 = s\<lparr>console := console s @ [''Session error:'']\<rparr>;
          msg = orDefault message ''Connection interrupted'';
          s2 = s1\<lparr>errorMsg := Some (''Session Error: '' @ msg)\<rparr>
      in stateOf (stopLiveSession b False s2))"

text \<open>The \<^verbatim>\<open>ended\<close> listener of a playback source.\<close>

definition sourceEnded :: "nat \<Rightarrow> widget \<Rightarrow> widget" where
  "sourceEnded h s = s\<lparr>sourcesRef := filter (\<lambda>x. x \<noteq> h) (sourcesRef s)\<rparr>"

subsection \<open>The keep-alive\<close>

text \<open>The callback of the interval set by \<^verbatim>\<open>startLiveSession\<close>. It reads the output context of
  the ref when it runs, which need not be the one of the start that set the interval.\<close>

definition keepAlive :: "browser \<Rightarrow> real \<Rightarrow> widget \<Rightarrow> widget" where
  "keepAlive b currentTime s =
     (case outputContextRef s of
        None \<Rightarrow> s
      | Some c \<Rightarrow>
          if ctxState c = running
          then s\<lparr>tones := tones s @
                  [\<lparr>frequency = 440, gain = 0, startAt = currentTime,
                    stopAt = fadd b currentTime hundredth\<rparr>]\<rparr>
          else s)"

subsection \<open>Events\<close>

text \<open>
  A timer fires only while it is pending and not before it is due. A timeout is then gone;
  the interval is due again 4000 ms later.
\<close>

definition fireTimer :: "browser \<Rightarrow> int \<Rightarrow> real \<Rightarrow> nat \<Rightarrow> widget \<Rightarrow> widget" where
  "fireTimer b now currentTime h s =
     (case find (\<lambda>tm. timerId tm = h) (timers s) of
        None \<Rightarrow> s
      | Some tm \<Rightarrow>
          if now < due tm then s
          else
            (case kind tm of
               IdleTimer \<Rightarrow>
                 idleExpired b (s\<lparr>timers := filter (\<lambda>x. timerId x \<noteq> h) (timers s)\<rparr>)
             | MicAttachTimer sid \<Rightarrow>
                 attachMicrophone sid (s\<lparr>timers := filter (\<lambda>x. timerId x \<noteq> h) (timers s)\<rparr>)
             | KeepAliveTimer \<Rightarrow>
                 keepAlive b currentTime
                   (s\<lparr>timers := map (\<lambda>x. if timerId x = h then x\<lparr>due := due x + 4000\<rparr> else x)
                                  (timers s)\<rparr>)))"

text \<open>
  What the browser delivers: the two buttons, the outcome of the request for the microphone,
  the callbacks of a connection, a frame for a processor, a decode that settles, the
  continuations of a session promise that become due, the end of a playback source and a
  timer. A decode that settles in the same task as its message, and continuations of a
  promise that is resolved already, are events that follow at once.
\<close>

datatype event =
    ClickStart bool ctx_state
  | ClickStop
  | MicGranted
  | MicDenied string "string option"
  | Opened nat
  | Frame nat "real list"
  | Message LiveServerMessage
  | DecodeSettled nat "real option"
  | PromiseJobs nat
  | Closed nat
  | Errored "string option"
  | SourceEnded nat
  | TimerFires nat

text \<open>A frame is delivered to a processor only while it is connected.\<close>

fun step :: "browser \<Rightarrow> int \<Rightarrow> real \<Rightarrow> event \<Rightarrow> widget \<Rightarrow> widget" where
  "step b now ct (ClickStart apiKey fresh) s = startLiveSession now apiKey fresh s"
| "step b now ct ClickStop s = stateOf (stopLiveSession b True s)"
| "step b now ct MicGranted s = micGranted s"
| "step b now ct (MicDenied name message) s = micDenied name message s"
| "step b now ct (Opened sid) s = onopen now sid s"
| "step b now ct (Frame p inputData) s =
     (case find (\<lambda>x. procId x = p) (processors s) of
        None \<Rightarrow> s
      | Some pr \<Rightarrow> onaudioprocess b now (procSession pr) inputData s)"
| "step b now ct (Message message) s = onmessage b now ct message s"
| "step b now ct (DecodeSettled k r) s = decodeSettled b ct k r s"
| "step b now ct (PromiseJobs sid) s = promiseJobs b sid s"
| "step b now ct (Closed sid) s = onclose b sid s"
| "step b now ct (Errored message) s = onerror b message s"
| "step b now ct (SourceEnded h) s = sourceEnded h s"
| "step b now ct (TimerFires h) s = fireTimer b now ct h s"

text \<open>A history: the events in the order in which the browser delivers them, each with the
  readings of the two clocks.\<close>

fun run :: "browser \<Rightarrow> (int \<times> real \<times> event) list \<Rightarrow> widget \<Rightarrow> widget" where
  "run b [] s = s"
| "run b ((now, ct, e) # es) s = run b es (step b now ct e s)"

subsection \<open>The release calls a state owes\<close>

text \<open>
  The calls that \<^verbatim>\<open>stopLiveSession\<close> wraps in a \<^verbatim>\<open>try\<close> block are the closing of the session and
  the stopping of a playback source. The calls that release what the refs of a state hold,
  in the order in which \<^verbatim>\<open>stopLiveSession\<close> makes them itself, are: the keep-alive interval,
  the idle timeout, the tracks of the stream, the script processor, every playback source,
  and the two audio contexts. The closing of the session is not among them: it is left to a
  continuation of the session promise.
\<close>

fun guardedCall :: "release_op \<Rightarrow> bool" where
  "guardedCall (SessionClose sid) = True"
| "guardedCall (SourceStop h) = True"
| "guardedCall op = False"


subsection \<open>Notions about the playback schedule\<close>

text \<open>
  Consecutive entries of a schedule do not overlap when each one ends, by the sum that the
  source computes, at or before the start of the next. The entries that a later state has
  beyond those of an earlier one are the newly scheduled ones. A history of chunk events
  consists of messages and of decodes that settle, with durations that are not negative. The
  decodes that a history settles with a buffer are listed with their durations in the order
  in which they settle. A history settles pending decodes from a state when each of its
  settling events names a decode that is pending when the event is delivered. The cursor of
  a state covers its pending decodes when it is not below the reading of the audio clock at
  which any of them arrived.
\<close>

fun noOverlap :: "browser \<Rightarrow> playback list \<Rightarrow> bool" where
  "noOverlap b [] = True"
| "noOverlap b [p] = True"
| "noOverlap b (p # q # ps) =
     (fadd b (startTime p) (duration p) \<le> startTime q \<and> noOverlap b (q # ps))"

definition newlyScheduled :: "widget \<Rightarrow> widget \<Rightarrow> playback list" where
  "newlyScheduled s s' = drop (length (scheduled s)) (scheduled s')"

fun chunkEvents :: "(int \<times> real \<times> event) list \<Rightarrow> bool" where
  "chunkEvents [] = True"
| "chunkEvents ((now, ct, Message message) # es) = chunkEvents es"
| "chunkEvents ((now, ct, DecodeSettled k None) # es) = chunkEvents es"
| "chunkEvents ((now, ct, DecodeSettled k (Some d)) # es) = (0 \<le> d \<and> chunkEvents es)"
| "chunkEvents (x # es) = False"

fun decoded :: "(int \<times> real \<times> event) list \<Rightarrow> (nat \<times> real) list" where
  "decoded [] = []"
| "decoded ((now, ct, DecodeSettled k (Some d)) # es) = (k, d) # decoded es"
| "decoded (x # es) = decoded es"

fun settlesPending :: "browser \<Rightarrow> widget \<Rightarrow> (int \<times> real \<times> event) list \<Rightarrow> bool" where
  "settlesPending b s [] = True"
| "settlesPending b s ((now, ct, DecodeSettled k r) # es) =
     (find (\<lambda>d. decodeId d = k) (decoding s) \<noteq> None
      \<and> settlesPending b (step b now ct (DecodeSettled k r) s) es)"
| "settlesPending b s ((now, ct, e) # es) = settlesPending b (step b now ct e s) es"

definition cursorCovers :: "widget \<Rightarrow> bool" where
  "cursorCovers s = list_all (\<lambda>pd. decodeArrived pd \<le> nextStartTimeRef s) (decoding s)"

subsection \<open>The tone of the keep-alive\<close>

text \<open>The tone that a tick of the keep-alive emits when the audio clock reads \<open>currentTime\<close>.\<close>

definition keepAliveTone :: "browser \<Rightarrow> real \<Rightarrow> tone" where
  "keepAliveTone b currentTime =
     \<lparr>frequency = 440, gain = 0, startAt = currentTime, stopAt = fadd b currentTime hundredth\<rparr>"

subsection \<open>Notions about the greeting\<close>




fun chronological :: "int \<Rightarrow> (int \<times> real \<times> event) list \<Rightarrow> bool" where
  "chronological t [] = True"
| "chronological t ((now, ct, e) # es) = (t \<le> now \<and> chronological now es)"


subsection \<open>A sample environment and sample histories\<close>

text \<open>
  An environment in which the sums, products, quotients and roots are exact, the chunk
  \<open>''bad''\<close> makes the decoding throw at once, and closing a session and stopping a source
  throw. On the frames and times of the samples below, every result is a double, so that the
  double operations give the same.
\<close>

definition sampleBrowser :: browser where
  "sampleBrowser =
     \<lparr>fadd = (\<lambda>x y. x + y), fmul = (\<lambda>x y. x * y), fdiv = (\<lambda>x y. x / y), fsqrt = sqrt,
      decodeThrows = (\<lambda>a. a = ''bad''), callThrows = guardedCall, sendThrows = (\<lambda>_. False)\<rparr>"

text \<open>
  The history of an ordinary call: the start button at time 0, the microphone granted at 20,
  the connection open at 30, and the microphone attached when the timeout fires at 830.
\<close>

definition sampleHistory :: "(int \<times> real \<times> event) list" where
  "sampleHistory =
     [(0, 0, ClickStart True suspended), (20, 0, MicGranted), (30, 0, Opened 6),
      (830, 0, TimerFires 7)]"

text \<open>The state that this history leads to.\<close>

definition sampleSession :: widget where
  "sampleSession =
     \<lparr>messages = [], isLiveActive = True, connectionStatus = connected, errorMsg = None,
      sessionPromiseRef = Some 6,
      inputContextRef = Some \<lparr>ctxId = 2, ctxState = running\<rparr>,
      outputContextRef = Some \<lparr>ctxId = 3, ctxState = running\<rparr>,
      nextStartTimeRef = 0, sourcesRef = [], streamRef = Some 5,
      scriptProcessorRef = Some 8, keepAliveIntervalRef = Some 4,
      isUserDisconnectingRef = False, lastSpeechTimeRef = 0, idleTimerRef = Some 1,
      timers = [\<lparr>timerId = 1, due = 90000, kind = IdleTimer\<rparr>,
                \<lparr>timerId = 4, due = 4000, kind = KeepAliveTimer\<rparr>],
      nextId = 9, pendingMic = 0,
      processors = [\<lparr>procId = 8, procCtx = 2, procSession = 6\<rparr>],
      transports = [6], captures = [5], decoding = [],
      thens = [(6, SendJob (TextContent greeting))],
      outbox = [(30, 6, TextContent greeting)], delivered = [],
      scheduled = [], released = [], tones = [], console = [''Session opened'']\<rparr>"

text \<open>Two transcript entries, and a message whose chunks are: one with a uri and no title,
  one without a web part, one with an empty uri, and one with a uri and a title.\<close>

definition userEntry :: ChatMessage where
  "userEntry = \<lparr>msgId = ''1'', role = User, msgText = ''What sizes are there?'',
     timestamp = 1, sources = None\<rparr>"

definition modelEntry :: ChatMessage where
  "modelEntry = \<lparr>msgId = ''2'', role = Model, msgText = ''30x40mm.'',
     timestamp = 2, sources = None\<rparr>"

definition citationChunks :: "grounding_chunk list" where
  "citationChunks =
     [Some \<lparr>webUri = Some ''https://qrcodestickers.co.uk'', webTitle = None\<rparr>,
      None,
      Some \<lparr>webUri = Some '''', webTitle = Some ''Nothing''\<rparr>,
      Some \<lparr>webUri = Some ''https://example.org/sizes'', webTitle = Some ''Sizes''\<rparr>]"

definition citationMessage :: LiveServerMessage where
  "citationMessage =
     \<lparr>inlineData = None, groundingChunks = Some citationChunks, turnComplete = False\<rparr>"

text \<open>A message that carries one chunk of audio.\<close>

definition audioMessage :: "string \<Rightarrow> LiveServerMessage" where
  "audioMessage a = \<lparr>inlineData = Some a, groundingChunks = None, turnComplete = False\<rparr>"

text \<open>
  The sample session while two chunks have played into it: a chunk arrives at time 900 and
  its decode settles with a buffer of 3 seconds, and a second chunk arrives whose decode is
  still pending.
\<close>

definition speakingHistory :: "(int \<times> real \<times> event) list" where
  "speakingHistory =
     [(900, 1, Message (audioMessage ''abc'')), (905, 1, DecodeSettled 10 (Some 3)),
      (910, 2, Message (audioMessage ''de''))]"

definition speakingSession :: widget where
  "speakingSession =
     \<lparr>messages = [], isLiveActive = True, connectionStatus = connected, errorMsg = None,
      sessionPromiseRef = Some 6,
      inputContextRef = Some \<lparr>ctxId = 2, ctxState = running\<rparr>,
      outputContextRef = Some \<lparr>ctxId = 3, ctxState = running\<rparr>,
      nextStartTimeRef = 4, sourcesRef = [11], streamRef = Some 5,
      scriptProcessorRef = Some 8, keepAliveIntervalRef = Some 4,
      isUserDisconnectingRef = False, lastSpeechTimeRef = 0, idleTimerRef = Some 12,
      timers = [\<lparr>timerId = 4, due = 4000, kind = KeepAliveTimer\<rparr>,
                \<lparr>timerId = 12, due = 90910, kind = IdleTimer\<rparr>],
      nextId = 14, pendingMic = 0,
      processors = [\<lparr>procId = 8, procCtx = 2, procSession = 6\<rparr>],
      transports = [6], captures = [5],
      decoding = [\<lparr>decodeId = 13, decodeMessage = audioMessage ''de'', decodeArrived = 2\<rparr>],
      thens = [(6, SendJob (TextContent greeting))],
      outbox = [(30, 6, TextContent greeting)], delivered = [],
      scheduled = [\<lparr>arrivedAt = 1, calledAt = 1, handle = 11, chunk = 10, startTime = 1,
                    duration = 3\<rparr>],
      released = [(ClearTimeout 1, False), (ClearTimeout 9, False)], tones = [],
      console = [''Session opened'']\<rparr>"

text \<open>
  A start that the user cancels while the browser still asks for the microphone: the stop
  comes at time 10, the permission at 20, and the connection opens at 30.
\<close>

definition cancelledStart :: "(int \<times> real \<times> event) list" where
  "cancelledStart =
     [(0, 0, ClickStart True suspended), (10, 0, ClickStop), (20, 0, MicGranted),
      (30, 0, Opened 6)]"

text \<open>
  A call that the idle timeout ends: the timeout fires at 90000, the continuation that closes
  the session runs, and the connection reports that it is closed.
\<close>

definition idleTimeoutHistory :: "(int \<times> real \<times> event) list" where
  "idleTimeoutHistory =
     sampleHistory @ [(90000, 90, TimerFires 1), (90000, 90, PromiseJobs 6)]"

text \<open>
  A call that the user ends and starts again before the connection of the first call has
  reported that it is closed.
\<close>

definition restartHistory :: "(int \<times> real \<times> event) list" where
  "restartHistory =
     sampleHistory @ [(1000, 1, ClickStop), (1000, 1, PromiseJobs 6),
       (1100, 0, ClickStart True suspended)]"

text \<open>
  A start that fails because the microphone is refused, and a second start 100 ms after the
  first, which is granted and whose connection opens.
\<close>

definition retryHistory :: "(int \<times> real \<times> event) list" where
  "retryHistory =
     [(0, 0, ClickStart True suspended), (50, 0, MicDenied ''NotAllowedError'' None),
      (100, 0, ClickStart True suspended), (150, 0, MicGranted), (200, 0, Opened 10)]"

text \<open>
  Chunks whose decodes settle late or in another order than the chunks arrived. In the first
  history the decode of the first chunk settles after a second chunk has arrived and when
  the audio clock reads 5. In the second history five chunks arrive, the decode of the
  second settles before the decode of the first, and the decode of the third fails. In the
  third history the decodes of five chunks settle in the order of arrival, some of them
  after later chunks have arrived, and the decode of the third fails.
\<close>

definition lateDecode :: "(int \<times> real \<times> event) list" where
  "lateDecode =
     [(900, 0, Message (audioMessage ''a'')), (910, 1, Message (audioMessage ''b'')),
      (950, 5, DecodeSettled 10 (Some 2))]"

definition decodesOutOfOrder :: "(int \<times> real \<times> event) list" where
  "decodesOutOfOrder =
     [(900, 1, Message (audioMessage ''a'')), (901, 1, Message (audioMessage ''b'')),
      (902, 1, Message (audioMessage ''c'')), (903, 1, Message (audioMessage ''d'')),
      (904, 1, Message (audioMessage ''e'')),
      (910, 1, DecodeSettled 12 (Some 3)), (911, 1, DecodeSettled 10 (Some 2)),
      (912, 1, DecodeSettled 14 None), (913, 1, DecodeSettled 16 (Some 1)),
      (914, 1, DecodeSettled 18 (Some 4))]"

definition decodesInOrder :: "(int \<times> real \<times> event) list" where
  "decodesInOrder =
     [(900, 1, Message (audioMessage ''a'')), (901, 1, Message (audioMessage ''b'')),
      (910, 1, DecodeSettled 10 (Some 2)),
      (911, 1, Message (audioMessage ''c'')),
      (912, 2, DecodeSettled 12 (Some 3)), (913, 2, DecodeSettled 15 None),
      (914, 7, Message (audioMessage ''d'')), (915, 7, Message (audioMessage ''e'')),
      (916, 7, DecodeSettled 18 (Some 1)), (917, 8, DecodeSettled 20 (Some 4))]"

section \<open>Properties\<close>

subsection \<open>Auxiliary facts\<close>

lemma run_append: "run b (xs @ ys) s = run b ys (run b xs s)"
  by (induction xs arbitrary: s) auto

lemma sampleSession_reached: "run b sampleHistory initial = sampleSession"
  by (simp add: sampleHistory_def sampleSession_def initial_def startLiveSession_def
      resetIdleTimer_def setTimer_def micGranted_def onopen_def sendRealtimeInput_def
      fireTimer_def attachMicrophone_def IDLE_TIMEOUT_MS_def Let_def)

subsection \<open>Teardown\<close>

lemma andThen_preserves:
  assumes "P (stateOf x)" and "\<And>s. P s \<Longrightarrow> P (stateOf (f s))"
  shows "P (stateOf (andThen x f))"
  using assms by (cases x) simp_all

text \<open>What holds when the teardown begins and is kept by each of its steps, whether the
  step returns or throws, holds when the teardown ends, however it ends.\<close>

lemma teardown_rule:
  assumes "P (if u then s\<lparr>isUserDisconnectingRef := True, errorMsg := None,
                          isLiveActive := False, connectionStatus := disconnected\<rparr>
              else s\<lparr>isLiveActive := False, connectionStatus := disconnected\<rparr>)"
    and "\<And>x. P x \<Longrightarrow> P (stateOf (cancelKeepAlive b x))"
    and "\<And>x. P x \<Longrightarrow> P (stateOf (cancelIdleTimer b x))"
    and "\<And>x. P x \<Longrightarrow> P (stateOf (registerClose x))"
    and "\<And>x. P x \<Longrightarrow> P (stateOf (stopTracks b x))"
    and "\<And>x. P x \<Longrightarrow> P (stateOf (disconnectProcessor b x))"
    and "\<And>x. P x \<Longrightarrow> P (stateOf (stopSources b x))"
    and "\<And>x. P x \<Longrightarrow> P (stateOf (closeInputContext b x))"
    and "\<And>x. P x \<Longrightarrow> P (stateOf (closeOutputContext b x))"
  shows "P (stateOf (stopLiveSession b u s))"
proof -
  define s2 where "s2 = (if u then s\<lparr>isUserDisconnectingRef := True, errorMsg := None\<rparr> else s)
         \<lparr>isLiveActive := False, connectionStatus := disconnected\<rparr>"
  have "P s2"
    using assms(1) by (simp add: s2_def split: if_splits)
  then have "P (stateOf (cancelKeepAlive b s2))"
    by (rule assms(2))
  then have "P (stateOf (andThen (cancelKeepAlive b s2) (cancelIdleTimer b)))"
    using assms(3) by (rule andThen_preserves [of P])
  then have "P (stateOf (andThen (andThen (cancelKeepAlive b s2) (cancelIdleTimer b))
      registerClose))"
    using assms(4) by (rule andThen_preserves [of P])
  then have "P (stateOf (andThen (andThen (andThen (cancelKeepAlive b s2) (cancelIdleTimer b))
      registerClose) (stopTracks b)))"
    using assms(5) by (rule andThen_preserves [of P])
  then have "P (stateOf (andThen (andThen (andThen (andThen (cancelKeepAlive b s2)
      (cancelIdleTimer b)) registerClose) (stopTracks b)) (disconnectProcessor b)))"
    using assms(6) by (rule andThen_preserves [of P])
  then have "P (stateOf (andThen (andThen (andThen (andThen (andThen (cancelKeepAlive b s2)
      (cancelIdleTimer b)) registerClose) (stopTracks b)) (disconnectProcessor b))
      (stopSources b)))"
    using assms(7) by (rule andThen_preserves [of P])
  then have "P (stateOf (andThen (andThen (andThen (andThen (andThen (andThen
      (cancelKeepAlive b s2) (cancelIdleTimer b)) registerClose) (stopTracks b))
      (disconnectProcessor b)) (stopSources b)) (closeInputContext b)))"
    using assms(8) by (rule andThen_preserves [of P])
  then have "P (stateOf (andThen (andThen (andThen (andThen (andThen (andThen (andThen
      (cancelKeepAlive b s2) (cancelIdleTimer b)) registerClose) (stopTracks b))
      (disconnectProcessor b)) (stopSources b)) (closeInputContext b))
      (closeOutputContext b)))"
    using assms(9) by (rule andThen_preserves [of P])
  then show ?thesis
    by (simp add: stopLiveSession_def Let_def s2_def)
qed

lemmas teardown_defs = cancelKeepAlive_def cancelIdleTimer_def registerClose_def stopTracks_def
  disconnectProcessor_def stopSources_def closeInputContext_def closeOutputContext_def
  invoke_def

lemma stopLiveSession_kept_all:
  "messages (stateOf (stopLiveSession b u s)) = messages s
   \<and> lastSpeechTimeRef (stateOf (stopLiveSession b u s)) = lastSpeechTimeRef s
   \<and> nextId (stateOf (stopLiveSession b u s)) = nextId s
   \<and> pendingMic (stateOf (stopLiveSession b u s)) = pendingMic s
   \<and> outbox (stateOf (stopLiveSession b u s)) = outbox s
   \<and> delivered (stateOf (stopLiveSession b u s)) = delivered s
   \<and> scheduled (stateOf (stopLiveSession b u s)) = scheduled s
   \<and> tones (stateOf (stopLiveSession b u s)) = tones s
   \<and> console (stateOf (stopLiveSession b u s)) = console s
   \<and> transports (stateOf (stopLiveSession b u s)) = transports s
   \<and> decoding (stateOf (stopLiveSession b u s)) = decoding s
   \<and> isLiveActive (stateOf (stopLiveSession b u s)) = False
   \<and> connectionStatus (stateOf (stopLiveSession b u s)) = disconnected
   \<and> isUserDisconnectingRef (stateOf (stopLiveSession b u s)) = (u \<or> isUserDisconnectingRef s)
   \<and> errorMsg (stateOf (stopLiveSession b u s)) = (if u then None else errorMsg s)"
  by (rule teardown_rule) (simp_all add: teardown_defs split: option.splits)

lemma stopLiveSession_kept [simp]:
  "messages (stateOf (stopLiveSession b u s)) = messages s"
  "lastSpeechTimeRef (stateOf (stopLiveSession b u s)) = lastSpeechTimeRef s"
  "nextId (stateOf (stopLiveSession b u s)) = nextId s"
  "pendingMic (stateOf (stopLiveSession b u s)) = pendingMic s"
  "outbox (stateOf (stopLiveSession b u s)) = outbox s"
  "delivered (stateOf (stopLiveSession b u s)) = delivered s"
  "scheduled (stateOf (stopLiveSession b u s)) = scheduled s"
  "tones (stateOf (stopLiveSession b u s)) = tones s"
  "console (stateOf (stopLiveSession b u s)) = console s"
  "transports (stateOf (stopLiveSession b u s)) = transports s"
  "decoding (stateOf (stopLiveSession b u s)) = decoding s"
  "isLiveActive (stateOf (stopLiveSession b u s)) = False"
  "connectionStatus (stateOf (stopLiveSession b u s)) = disconnected"
  "isUserDisconnectingRef (stateOf (stopLiveSession b u s)) = (u \<or> isUserDisconnectingRef s)"
  "errorMsg (stateOf (stopLiveSession b u s)) = (if u then None else errorMsg s)"
  using stopLiveSession_kept_all [of b u s] by simp_all


lemma stopLiveSession_captures_kept:
  "streamRef s = None \<Longrightarrow> captures (stateOf (stopLiveSession b u s)) = captures s"
proof -
  assume a: "streamRef s = None"
  have "streamRef (stateOf (stopLiveSession b u s)) = None
      \<and> captures (stateOf (stopLiveSession b u s)) = captures s"
    by (rule teardown_rule) (use a in \<open>simp_all add: teardown_defs split: option.splits\<close>)
  then show ?thesis by simp
qed

subsection \<open>What the handlers leave as it is\<close>

lemma resetIdleTimer_kept [simp]:
  "messages (resetIdleTimer now s) = messages s"
  "isLiveActive (resetIdleTimer now s) = isLiveActive s"
  "connectionStatus (resetIdleTimer now s) = connectionStatus s"
  "errorMsg (resetIdleTimer now s) = errorMsg s"
  "sessionPromiseRef (resetIdleTimer now s) = sessionPromiseRef s"
  "inputContextRef (resetIdleTimer now s) = inputContextRef s"
  "outputContextRef (resetIdleTimer now s) = outputContextRef s"
  "nextStartTimeRef (resetIdleTimer now s) = nextStartTimeRef s"
  "sourcesRef (resetIdleTimer now s) = sourcesRef s"
  "streamRef (resetIdleTimer now s) = streamRef s"
  "scriptProcessorRef (resetIdleTimer now s) = scriptProcessorRef s"
  "keepAliveIntervalRef (resetIdleTimer now s) = keepAliveIntervalRef s"
  "isUserDisconnectingRef (resetIdleTimer now s) = isUserDisconnectingRef s"
  "lastSpeechTimeRef (resetIdleTimer now s) = lastSpeechTimeRef s"
  "pendingMic (resetIdleTimer now s) = pendingMic s"
  "processors (resetIdleTimer now s) = processors s"
  "transports (resetIdleTimer now s) = transports s"
  "captures (resetIdleTimer now s) = captures s"
  "decoding (resetIdleTimer now s) = decoding s"
  "thens (resetIdleTimer now s) = thens s"
  "outbox (resetIdleTimer now s) = outbox s"
  "delivered (resetIdleTimer now s) = delivered s"
  "scheduled (resetIdleTimer now s) = scheduled s"
  "tones (resetIdleTimer now s) = tones s"
  "console (resetIdleTimer now s) = console s"
  "nextId (resetIdleTimer now s) = Suc (nextId s)"
  by (simp_all add: resetIdleTimer_def setTimer_def clearTimeout_def split: option.splits)

lemma citationBranch_kept [simp]:
  "isLiveActive (citationBranch m s) = isLiveActive s"
  "connectionStatus (citationBranch m s) = connectionStatus s"
  "errorMsg (citationBranch m s) = errorMsg s"
  "sessionPromiseRef (citationBranch m s) = sessionPromiseRef s"
  "inputContextRef (citationBranch m s) = inputContextRef s"
  "outputContextRef (citationBranch m s) = outputContextRef s"
  "nextStartTimeRef (citationBranch m s) = nextStartTimeRef s"
  "sourcesRef (citationBranch m s) = sourcesRef s"
  "streamRef (citationBranch m s) = streamRef s"
  "scriptProcessorRef (citationBranch m s) = scriptProcessorRef s"
  "keepAliveIntervalRef (citationBranch m s) = keepAliveIntervalRef s"
  "isUserDisconnectingRef (citationBranch m s) = isUserDisconnectingRef s"
  "lastSpeechTimeRef (citationBranch m s) = lastSpeechTimeRef s"
  "idleTimerRef (citationBranch m s) = idleTimerRef s"
  "timers (citationBranch m s) = timers s"
  "nextId (citationBranch m s) = nextId s"
  "pendingMic (citationBranch m s) = pendingMic s"
  "processors (citationBranch m s) = processors s"
  "transports (citationBranch m s) = transports s"
  "captures (citationBranch m s) = captures s"
  "decoding (citationBranch m s) = decoding s"
  "thens (citationBranch m s) = thens s"
  "outbox (citationBranch m s) = outbox s"
  "delivered (citationBranch m s) = delivered s"
  "scheduled (citationBranch m s) = scheduled s"
  "released (citationBranch m s) = released s"
  "tones (citationBranch m s) = tones s"
  "console (citationBranch m s) = console s"
  by (simp_all add: citationBranch_def Let_def split: option.splits)

lemma onmessage_kept [simp]:
  "isLiveActive (onmessage b now ct m s) = isLiveActive s"
  "connectionStatus (onmessage b now ct m s) = connectionStatus s"
  "errorMsg (onmessage b now ct m s) = errorMsg s"
  "isUserDisconnectingRef (onmessage b now ct m s) = isUserDisconnectingRef s"
  "lastSpeechTimeRef (onmessage b now ct m s) = lastSpeechTimeRef s"
  "outputContextRef (onmessage b now ct m s) = outputContextRef s"
  "processors (onmessage b now ct m s) = processors s"
  "transports (onmessage b now ct m s) = transports s"
  "captures (onmessage b now ct m s) = captures s"
  "pendingMic (onmessage b now ct m s) = pendingMic s"
  "thens (onmessage b now ct m s) = thens s"
  "outbox (onmessage b now ct m s) = outbox s"
  "delivered (onmessage b now ct m s) = delivered s"
  "scheduled (onmessage b now ct m s) = scheduled s"
  "sourcesRef (onmessage b now ct m s) = sourcesRef s"
  "tones (onmessage b now ct m s) = tones s"
  by (simp_all add: onmessage_def Let_def split: option.splits)

lemma decodeSettled_kept [simp]:
  "isLiveActive (decodeSettled b ct k r s) = isLiveActive s"
  "connectionStatus (decodeSettled b ct k r s) = connectionStatus s"
  "errorMsg (decodeSettled b ct k r s) = errorMsg s"
  "isUserDisconnectingRef (decodeSettled b ct k r s) = isUserDisconnectingRef s"
  "lastSpeechTimeRef (decodeSettled b ct k r s) = lastSpeechTimeRef s"
  "outputContextRef (decodeSettled b ct k r s) = outputContextRef s"
  "idleTimerRef (decodeSettled b ct k r s) = idleTimerRef s"
  "keepAliveIntervalRef (decodeSettled b ct k r s) = keepAliveIntervalRef s"
  "timers (decodeSettled b ct k r s) = timers s"
  "processors (decodeSettled b ct k r s) = processors s"
  "transports (decodeSettled b ct k r s) = transports s"
  "captures (decodeSettled b ct k r s) = captures s"
  "pendingMic (decodeSettled b ct k r s) = pendingMic s"
  "thens (decodeSettled b ct k r s) = thens s"
  "outbox (decodeSettled b ct k r s) = outbox s"
  "delivered (decodeSettled b ct k r s) = delivered s"
  "released (decodeSettled b ct k r s) = released s"
  "tones (decodeSettled b ct k r s) = tones s"
  by (simp_all add: decodeSettled_def Let_def split: option.splits)

lemma runJob_kept [simp]:
  "messages (runJob b j s) = messages s"
  "isLiveActive (runJob b j s) = isLiveActive s"
  "connectionStatus (runJob b j s) = connectionStatus s"
  "errorMsg (runJob b j s) = errorMsg s"
  "isUserDisconnectingRef (runJob b j s) = isUserDisconnectingRef s"
  "lastSpeechTimeRef (runJob b j s) = lastSpeechTimeRef s"
  "outputContextRef (runJob b j s) = outputContextRef s"
  "idleTimerRef (runJob b j s) = idleTimerRef s"
  "keepAliveIntervalRef (runJob b j s) = keepAliveIntervalRef s"
  "timers (runJob b j s) = timers s"
  "nextId (runJob b j s) = nextId s"
  "processors (runJob b j s) = processors s"
  "captures (runJob b j s) = captures s"
  "pendingMic (runJob b j s) = pendingMic s"
  "decoding (runJob b j s) = decoding s"
  "thens (runJob b j s) = thens s"
  "outbox (runJob b j s) = outbox s"
  "scheduled (runJob b j s) = scheduled s"
  "tones (runJob b j s) = tones s"
  by (cases "(b, j, s)" rule: runJob.cases; simp add: Let_def)+

lemma fold_runJob_kept [simp]:
  "messages (fold (runJob b) js s) = messages s"
  "isLiveActive (fold (runJob b) js s) = isLiveActive s"
  "connectionStatus (fold (runJob b) js s) = connectionStatus s"
  "errorMsg (fold (runJob b) js s) = errorMsg s"
  "isUserDisconnectingRef (fold (runJob b) js s) = isUserDisconnectingRef s"
  "lastSpeechTimeRef (fold (runJob b) js s) = lastSpeechTimeRef s"
  "outputContextRef (fold (runJob b) js s) = outputContextRef s"
  "idleTimerRef (fold (runJob b) js s) = idleTimerRef s"
  "keepAliveIntervalRef (fold (runJob b) js s) = keepAliveIntervalRef s"
  "timers (fold (runJob b) js s) = timers s"
  "nextId (fold (runJob b) js s) = nextId s"
  "processors (fold (runJob b) js s) = processors s"
  "captures (fold (runJob b) js s) = captures s"
  "pendingMic (fold (runJob b) js s) = pendingMic s"
  "decoding (fold (runJob b) js s) = decoding s"
  "thens (fold (runJob b) js s) = thens s"
  "outbox (fold (runJob b) js s) = outbox s"
  "scheduled (fold (runJob b) js s) = scheduled s"
  "tones (fold (runJob b) js s) = tones s"
  by (induction js arbitrary: s; simp)+

lemma promiseJobs_kept [simp]:
  "messages (promiseJobs b sid s) = messages s"
  "isLiveActive (promiseJobs b sid s) = isLiveActive s"
  "connectionStatus (promiseJobs b sid s) = connectionStatus s"
  "errorMsg (promiseJobs b sid s) = errorMsg s"
  "isUserDisconnectingRef (promiseJobs b sid s) = isUserDisconnectingRef s"
  "lastSpeechTimeRef (promiseJobs b sid s) = lastSpeechTimeRef s"
  "outputContextRef (promiseJobs b sid s) = outputContextRef s"
  "idleTimerRef (promiseJobs b sid s) = idleTimerRef s"
  "keepAliveIntervalRef (promiseJobs b sid s) = keepAliveIntervalRef s"
  "timers (promiseJobs b sid s) = timers s"
  "nextId (promiseJobs b sid s) = nextId s"
  "processors (promiseJobs b sid s) = processors s"
  "captures (promiseJobs b sid s) = captures s"
  "pendingMic (promiseJobs b sid s) = pendingMic s"
  "decoding (promiseJobs b sid s) = decoding s"
  "outbox (promiseJobs b sid s) = outbox s"
  "scheduled (promiseJobs b sid s) = scheduled s"
  "tones (promiseJobs b sid s) = tones s"
  by (simp_all add: promiseJobs_def)



lemma onaudioprocess_lastSpeech:
  "lastSpeechTimeRef (onaudioprocess b now sid inputData s) =
      (if aboveThreshold b inputData then now else lastSpeechTimeRef s)"
  by (simp add: onaudioprocess_def Let_def sendRealtimeInput_def)

lemma onaudioprocess_outbox:
  "outbox (onaudioprocess b now sid inputData s) =
      (if now - (if aboveThreshold b inputData then now else lastSpeechTimeRef s) < 800
       then outbox s @ [(now, sid, MediaBlob inputData)] else outbox s)"
  by (simp add: onaudioprocess_def Let_def sendRealtimeInput_def SPEECH_HANGOVER_MS_def)

subsection \<open>The greeting and the microphone\<close>


































lemma outbox_handlers [simp]:
  "outbox (startLiveSession now k f s) = outbox s"
  "outbox (micGranted s) = outbox s"
  "outbox (micDenied n m s) = outbox s"
  "outbox (sourceEnded h s) = outbox s"
  "outbox (keepAlive b ct s) = outbox s"
  "outbox (attachMicrophone sid s) = outbox s"
  "outbox (onclose b sid s) = outbox s"
  "outbox (onerror b m s) = outbox s"
  "outbox (idleExpired b s) = outbox s"
      by (simp_all add: startLiveSession_def setTimer_def micGranted_def micDenied_def
      sourceEnded_def keepAlive_def attachMicrophone_def onclose_def onerror_def
      idleExpired_def Let_def split: option.splits)

lemma outbox_fireTimer [simp]: "outbox (fireTimer b now ct h s) = outbox s"
  by (simp add: fireTimer_def split: option.splits timer_kind.splits)






subsection \<open>Starting twice\<close>

text \<open>While the session is live, the start button does nothing.\<close>

lemma start_while_live_is_noop:
  "isLiveActive s \<Longrightarrow> step b now ct (ClickStart k f) s = s"
  by (simp add: startLiveSession_def)

lemma startLiveSession_fields:
  assumes "\<not> isLiveActive s"
  shows "nextId (startLiveSession now True f s) = nextId s + 4"
    and "pendingMic (startLiveSession now True f s) = Suc (pendingMic s)"
    and "transports (startLiveSession now True f s) = transports s"
    and "captures (startLiveSession now True f s) = captures s"
    and "isLiveActive (startLiveSession now True f s)"
    and "streamRef (startLiveSession now True f s) = streamRef s"
  using assms by (simp_all add: startLiveSession_def setTimer_def Let_def)

lemma micGranted_fields:
  assumes "0 < pendingMic s"
  shows "transports (micGranted s) = transports s @ [Suc (nextId s)]"
    and "captures (micGranted s) = captures s @ [nextId s]"
    and "nextId (micGranted s) = nextId s + 2"
    and "pendingMic (micGranted s) = pendingMic s - 1"
    and "isLiveActive (micGranted s) = isLiveActive s"
    and "connectionStatus (micGranted s) = connectionStatus s"
  using assms by (simp_all add: micGranted_def)

lemma onopen_fields:
  "transports (onopen now sid s) = transports s"
  "captures (onopen now sid s) = captures s"
  "nextId (onopen now sid s) = Suc (nextId s)"
  "pendingMic (onopen now sid s) = pendingMic s"
  "isLiveActive (onopen now sid s) = isLiveActive s"
  "connectionStatus (onopen now sid s) = connected"
  by (simp_all add: onopen_def sendRealtimeInput_def setTimer_def Let_def)

text \<open>What the history of the cancelled start leads to, whatever the teardown of the stop
  could release.\<close>

lemma cancelledStart_fields:
  "connectionStatus (run b cancelledStart initial) = connected"
  "\<not> isLiveActive (run b cancelledStart initial)"
  "transports (run b cancelledStart initial) = [6]"
  "captures (run b cancelledStart initial) = [5]"
  "nextId (run b cancelledStart initial) = 8"
  "pendingMic (run b cancelledStart initial) = 0"
proof -
  define s1 where "s1 = startLiveSession 0 True suspended initial"
  define s2 where "s2 = stateOf (stopLiveSession b True s1)"
  define s3 where "s3 = micGranted s2"
  have r: "run b cancelledStart initial = onopen 30 6 s3"
    by (simp add: cancelledStart_def s1_def s2_def s3_def)
  have f1: "nextId s1 = 5" "pendingMic s1 = 1" "transports s1 = []" "captures s1 = []"
      "streamRef s1 = None"
    by (simp_all add: s1_def startLiveSession_fields initial_def)
  have f2: "nextId s2 = 5" "pendingMic s2 = 1" "transports s2 = []" "captures s2 = []"
      "\<not> isLiveActive s2"
    using f1 by (simp_all add: s2_def stopLiveSession_captures_kept)
  have f3: "nextId s3 = 7" "pendingMic s3 = 0" "transports s3 = [6]" "captures s3 = [5]"
      "\<not> isLiveActive s3"
    using f2 by (simp_all add: s3_def micGranted_fields)
  show "connectionStatus (run b cancelledStart initial) = connected"
    "\<not> isLiveActive (run b cancelledStart initial)"
    "transports (run b cancelledStart initial) = [6]"
    "captures (run b cancelledStart initial) = [5]"
    "nextId (run b cancelledStart initial) = 8"
    "pendingMic (run b cancelledStart initial) = 0"
    using f3 by (simp_all add: r onopen_fields)
qed

text \<open>
  C6. After a start that was cancelled while the permission request was pending, the
  continuation of the request still connects: the status reads connected and one
  connection and one capture stream are open, but the session is not live. A start in this
  state is carried out, and when its own permission arrives a second connection and a
  second capture stream are open beside the first.
\<close>

theorem start_after_cancelled_start_opens_second_session:
  "connectionStatus (run b cancelledStart initial) = connected
   \<and> \<not> isLiveActive (run b cancelledStart initial)
   \<and> transports (run b cancelledStart initial) = [6]
   \<and> captures (run b cancelledStart initial) = [5]
   \<and> step b 40 0 (ClickStart True running) (run b cancelledStart initial) \<noteq>
        run b cancelledStart initial
   \<and> transports (run b (cancelledStart @ [(40, 0, ClickStart True running), (50, 0, MicGranted)])
        initial) = [6, 13]
   \<and> captures (run b (cancelledStart @ [(40, 0, ClickStart True running), (50, 0, MicGranted)])
        initial) = [5, 12]"
proof -
  define z where "z = run b cancelledStart initial"
  note f = cancelledStart_fields [of b, folded z_def]
  define z1 where "z1 = startLiveSession 40 True running z"
  have g: "nextId z1 = 12" "pendingMic z1 = 1" "transports z1 = [6]" "captures z1 = [5]"
      "isLiveActive z1"
    using f startLiveSession_fields [of z 40 running] by (simp_all add: z1_def)
  from g(5) f(2) have d: "step b 40 0 (ClickStart True running) z \<noteq> z"
    by (auto simp add: z1_def)
  have t: "transports (micGranted z1) = [6, 13]" "captures (micGranted z1) = [5, 12]"
    using g by (simp_all add: micGranted_fields)
  have "run b (cancelledStart @ [(40, 0, ClickStart True running), (50, 0, MicGranted)]) initial =
      micGranted z1"
    by (simp add: run_append z_def z1_def)
  with f d t show ?thesis
    by (simp add: z_def del: step.simps)
qed

subsection \<open>Grounding citations\<close>

lemma length_attachSources [simp]: "length (attachSources ns prev) = length prev"
  by (simp add: attachSources_def)

lemma collectSources_concat:
  "collectSources gs =
     concat (map (\<lambda>c. case c of None \<Rightarrow> []
        | Some w \<Rightarrow> (case webUri w of None \<Rightarrow> []
            | Some u \<Rightarrow> if u = [] then []
                else [\<lparr>title = (case webTitle w of None \<Rightarrow> ''Source''
                                 | Some t \<Rightarrow> if t = [] then ''Source'' else t),
                       uri = u\<rparr>])) gs)"
  by (induction gs rule: collectSources.induct)
     (simp_all add: orDefault_def split: option.splits)

lemma messages_citationBranch:
  assumes "groundingChunks message = Some gs" and "collectSources gs \<noteq> []"
  shows "messages (citationBranch message s) =
           (if messages s \<noteq> [] \<and> role (last (messages s)) = Model
            then butlast (messages s) @ [(last (messages s))\<lparr>sources := Some (collectSources gs)\<rparr>]
            else messages s)"
proof -
  from assms(2) have "gs \<noteq> []" by auto
  with assms show ?thesis
    by (simp add: citationBranch_def attachSources_def Let_def)
qed

lemma messages_onmessage:
  "messages (onmessage b now ct message s) =
     (if \<exists>a. inlineData message = Some a \<and> a \<noteq> [] \<and> outputContextRef s \<noteq> None
            \<and> \<not> decodeThrows b a
      then messages s else messages (citationBranch message s))"
  by (auto simp add: onmessage_def Let_def citationBranch_def split: option.splits)

lemma messages_decodeSettled:
  assumes "find (\<lambda>d. decodeId d = k) (decoding s) = Some pd"
  shows "messages (decodeSettled b ct k r s) = messages (citationBranch (decodeMessage pd) s)"
  using assms by (simp add: decodeSettled_def Let_def citationBranch_def split: option.splits)

text \<open>
  C10. Let the citations of a message be those that its grounding chunks yield: one for each
  chunk that has a web part with a uri that is not empty, in the order of the chunks, with
  the title of the chunk, or \<open>Source\<close> when the title is missing or empty. When there is at
  least one, the second block of \<^verbatim>\<open>onmessage\<close> replaces the last transcript entry by a copy
  that carries these citations as its sources when that entry exists and is the model's, and
  otherwise leaves the transcript as it is; it never adds an entry. The block runs when the
  message arrives, unless the handler waits for the decode of the audio of the message;
  then the transcript stays as it is until the decode settles, and the block runs at that
  moment, on the transcript as it is then.
\<close>

theorem citations_attach_to_last_model_entry:
  assumes "groundingChunks message = Some gs"
    and "cites =
       concat (map (\<lambda>c. case c of None \<Rightarrow> []
          | Some w \<Rightarrow> (case webUri w of None \<Rightarrow> []
              | Some u \<Rightarrow> if u = [] then []
                  else [\<lparr>title = (case webTitle w of None \<Rightarrow> ''Source''
                                   | Some t \<Rightarrow> if t = [] then ''Source'' else t),
                         uri = u\<rparr>])) gs)"
    and "cites \<noteq> []"
  shows "messages (citationBranch message s) =
           (if messages s \<noteq> [] \<and> role (last (messages s)) = Model
            then butlast (messages s) @ [(last (messages s))\<lparr>sources := Some cites\<rparr>]
            else messages s)
     \<and> length (messages (citationBranch message s)) = length (messages s)
     \<and> messages (step b now ct (Message message) s) =
           (if \<exists>a. inlineData message = Some a \<and> a \<noteq> [] \<and> outputContextRef s \<noteq> None
                  \<and> \<not> decodeThrows b a
            then messages s
            else if messages s \<noteq> [] \<and> role (last (messages s)) = Model
            then butlast (messages s) @ [(last (messages s))\<lparr>sources := Some cites\<rparr>]
            else messages s)
     \<and> (\<forall>pd. find (\<lambda>d. decodeId d = k) (decoding s) = Some pd \<and> decodeMessage pd = message \<longrightarrow>
           messages (step b now ct (DecodeSettled k r) s) =
             (if messages s \<noteq> [] \<and> role (last (messages s)) = Model
              then butlast (messages s) @ [(last (messages s))\<lparr>sources := Some cites\<rparr>]
              else messages s))"
proof -
  from assms(2) have c: "collectSources gs = cites"
    by (simp only: collectSources_concat)
  with assms(3) have n: "collectSources gs \<noteq> []" by simp
  have m: "messages (citationBranch message s) =
           (if messages s \<noteq> [] \<and> role (last (messages s)) = Model
            then butlast (messages s) @ [(last (messages s))\<lparr>sources := Some cites\<rparr>]
            else messages s)"
    using messages_citationBranch [OF assms(1) n, of s] by (simp only: c)
  have l: "length (messages (citationBranch message s)) = length (messages s)"
    by (simp add: m)
  have a: "messages (step b now ct (Message message) s) =
           (if \<exists>a. inlineData message = Some a \<and> a \<noteq> [] \<and> outputContextRef s \<noteq> None
                  \<and> \<not> decodeThrows b a
            then messages s
            else if messages s \<noteq> [] \<and> role (last (messages s)) = Model
            then butlast (messages s) @ [(last (messages s))\<lparr>sources := Some cites\<rparr>]
            else messages s)"
    by (simp only: step.simps messages_onmessage m)
  have d: "messages (step b now ct (DecodeSettled k r) s) =
             (if messages s \<noteq> [] \<and> role (last (messages s)) = Model
              then butlast (messages s) @ [(last (messages s))\<lparr>sources := Some cites\<rparr>]
              else messages s)"
    if "find (\<lambda>d. decodeId d = k) (decoding s) = Some pd" "decodeMessage pd = message" for pd
    using messages_decodeSettled [OF that(1), of b ct r] that(2) by (simp only: step.simps m)
  from m l a d show ?thesis by blast
qed

theorem citations_attach_to_last_model_entry_witness:
  "groundingChunks citationMessage = Some citationChunks
   \<and> messages (step sampleBrowser 900 0 (Message citationMessage)
        (sampleSession\<lparr>messages := [userEntry, modelEntry]\<rparr>)) =
       [userEntry,
        modelEntry\<lparr>sources := Some [\<lparr>title = ''Source'', uri = ''https://qrcodestickers.co.uk''\<rparr>,
                                     \<lparr>title = ''Sizes'', uri = ''https://example.org/sizes''\<rparr>]\<rparr>]
   \<and> messages (step sampleBrowser 900 0 (Message citationMessage)
        (sampleSession\<lparr>messages := [modelEntry, userEntry]\<rparr>)) = [modelEntry, userEntry]
   \<and> messages (step sampleBrowser 900 0 (Message (citationMessage\<lparr>inlineData := Some ''abc''\<rparr>))
        (sampleSession\<lparr>messages := [userEntry, modelEntry]\<rparr>)) = [userEntry, modelEntry]
   \<and> messages (step sampleBrowser 905 0 (DecodeSettled 10 None)
        (sampleSession\<lparr>messages := [userEntry, modelEntry],
           decoding := [\<lparr>decodeId = 10,
             decodeMessage = citationMessage\<lparr>inlineData := Some ''abc''\<rparr>,
             decodeArrived = 0\<rparr>]\<rparr>)) =
       [userEntry,
        modelEntry\<lparr>sources := Some [\<lparr>title = ''Source'', uri = ''https://qrcodestickers.co.uk''\<rparr>,
                                     \<lparr>title = ''Sizes'', uri = ''https://example.org/sizes''\<rparr>]\<rparr>]"
proof -
  let ?cites = "[\<lparr>title = ''Source'', uri = ''https://qrcodestickers.co.uk''\<rparr>,
                 \<lparr>title = ''Sizes'', uri = ''https://example.org/sizes''\<rparr>]"
  let ?spoken = "citationMessage\<lparr>inlineData := Some ''abc''\<rparr>"
  note T = citations_attach_to_last_model_entry [where gs = citationChunks and cites = ?cites
      and b = sampleBrowser and ct = 0]
  have g: "groundingChunks citationMessage = Some citationChunks"
      "groundingChunks ?spoken = Some citationChunks"
    by (simp_all add: citationMessage_def)
  have c: "?cites = concat (map (\<lambda>c. case c of None \<Rightarrow> []
          | Some w \<Rightarrow> (case webUri w of None \<Rightarrow> []
              | Some u \<Rightarrow> if u = [] then []
                  else [\<lparr>title = (case webTitle w of None \<Rightarrow> ''Source''
                                   | Some t \<Rightarrow> if t = [] then ''Source'' else t),
                         uri = u\<rparr>])) citationChunks)"
    by (simp add: citationChunks_def)
  have n: "?cites \<noteq> []" by simp
  have 1: "messages (step sampleBrowser 900 0 (Message citationMessage)
        (sampleSession\<lparr>messages := [userEntry, modelEntry]\<rparr>)) =
       [userEntry, modelEntry\<lparr>sources := Some ?cites\<rparr>]"
    using T [OF g(1) c n, where s = "sampleSession\<lparr>messages := [userEntry, modelEntry]\<rparr>"
        and now = 900]
    by (simp add: citationMessage_def modelEntry_def del: step.simps)
  have 2: "messages (step sampleBrowser 900 0 (Message citationMessage)
        (sampleSession\<lparr>messages := [modelEntry, userEntry]\<rparr>)) = [modelEntry, userEntry]"
    using T [OF g(1) c n, where s = "sampleSession\<lparr>messages := [modelEntry, userEntry]\<rparr>"
        and now = 900]
    by (simp add: citationMessage_def userEntry_def del: step.simps)
  have 3: "messages (step sampleBrowser 900 0 (Message ?spoken)
        (sampleSession\<lparr>messages := [userEntry, modelEntry]\<rparr>)) = [userEntry, modelEntry]"
    using T [OF g(2) c n, where s = "sampleSession\<lparr>messages := [userEntry, modelEntry]\<rparr>"
        and now = 900]
    by (simp add: citationMessage_def sampleSession_def sampleBrowser_def del: step.simps)
  have 4: "messages (step sampleBrowser 905 0 (DecodeSettled 10 None)
        (sampleSession\<lparr>messages := [userEntry, modelEntry],
           decoding := [\<lparr>decodeId = 10, decodeMessage = ?spoken, decodeArrived = 0\<rparr>]\<rparr>)) =
       [userEntry, modelEntry\<lparr>sources := Some ?cites\<rparr>]"
    using T [OF g(2) c n, where s = "sampleSession\<lparr>messages := [userEntry, modelEntry],
           decoding := [\<lparr>decodeId = 10, decodeMessage = ?spoken, decodeArrived = 0\<rparr>]\<rparr>"
        and now = 905 and k = 10 and r = None]
    by (simp add: modelEntry_def del: step.simps)
  from g(1) 1 2 3 4 show ?thesis by blast
qed

subsection \<open>The voice activity gate\<close>

lemma lastSpeech_handlers [simp]:
  "lastSpeechTimeRef (micGranted s) = lastSpeechTimeRef s"
  "lastSpeechTimeRef (micDenied n m s) = lastSpeechTimeRef s"
  "lastSpeechTimeRef (onopen now sid s) = lastSpeechTimeRef s"
  "lastSpeechTimeRef (attachMicrophone sid s) = lastSpeechTimeRef s"
  "lastSpeechTimeRef (sourceEnded h s) = lastSpeechTimeRef s"
  "lastSpeechTimeRef (keepAlive b ct s) = lastSpeechTimeRef s"
  "lastSpeechTimeRef (onclose b sid s) = lastSpeechTimeRef s"
  "lastSpeechTimeRef (onerror b m s) = lastSpeechTimeRef s"
  "lastSpeechTimeRef (idleExpired b s) = lastSpeechTimeRef s"
  by (simp_all add: micGranted_def micDenied_def onopen_def sendRealtimeInput_def setTimer_def
      attachMicrophone_def sourceEnded_def keepAlive_def onclose_def onerror_def
      idleExpired_def Let_def split: option.splits)

lemma lastSpeech_fireTimer [simp]:
  "lastSpeechTimeRef (fireTimer b now ct h s) = lastSpeechTimeRef s"
  by (simp add: fireTimer_def split: option.splits timer_kind.splits)

lemma lastSpeech_startLiveSession:
  "lastSpeechTimeRef (startLiveSession now k f s) = lastSpeechTimeRef s
   \<or> lastSpeechTimeRef (startLiveSession now k f s) = now"
  by (simp add: startLiveSession_def setTimer_def Let_def)

lemma lastSpeech_step:
  "lastSpeechTimeRef (step b now ct e s) = lastSpeechTimeRef s
   \<or> lastSpeechTimeRef (step b now ct e s) = now"
proof (cases e)
  case (ClickStart k f)
  with lastSpeech_startLiveSession [of now k f s] show ?thesis by simp
next
  case (Frame p xs)
  then show ?thesis
    by (cases "find (\<lambda>x. procId x = p) (processors s)")
       (simp_all add: onaudioprocess_lastSpeech)
qed simp_all

lemma lastSpeech_run:
  assumes "chronological t0 evs" and "lastSpeechTimeRef s \<le> t0"
  shows "lastSpeechTimeRef s \<le> lastSpeechTimeRef (run b evs s)"
  using assms
proof (induction evs arbitrary: s t0)
  case Nil
  then show ?case by simp
next
  case (Cons x evs)
  obtain now ct e where x: "x = (now, ct, e)" by (cases x)
  define s1 where "s1 = step b now ct e s"
  from Cons.prems x have c: "t0 \<le> now" "chronological now evs" by simp_all
  from lastSpeech_step [of b now ct e s]
  have "lastSpeechTimeRef s1 = lastSpeechTimeRef s \<or> lastSpeechTimeRef s1 = now"
    by (simp only: s1_def)
  with Cons.prems(2) c(1)
  have b1: "lastSpeechTimeRef s \<le> lastSpeechTimeRef s1" "lastSpeechTimeRef s1 \<le> now"
    by auto
  from c(2) b1(2) have "lastSpeechTimeRef s1 \<le> lastSpeechTimeRef (run b evs s1)"
    by (rule Cons.IH)
  with b1(1) show ?case by (simp add: x s1_def)
qed

lemma fold_squares: "fold (\<lambda>x sum. sum + x * x) xs (a::real) = a + (\<Sum>x\<leftarrow>xs. x * x)"
  by (induction xs arbitrary: a) simp_all

lemma onaudioprocess_thens:
  "thens (onaudioprocess b now sid inputData s) =
      (if now - (if aboveThreshold b inputData then now else lastSpeechTimeRef s) < 800
       then thens s @ [(sid, SendJob (MediaBlob inputData))] else thens s)"
  by (simp add: onaudioprocess_def Let_def sendRealtimeInput_def SPEECH_HANGOVER_MS_def)

text \<open>
  C1. A frame that reaches the callback of a connected processor. Its volume is what the
  source computes in double arithmetic: the squares are added from the left, the sum is
  divided by the length and the root is taken; when these operations are exact, it is the
  root of the mean of the squares. The time of the last speech becomes the current time
  exactly when this volume is greater than the double 0.01, and otherwise stays. The frame
  is forwarded exactly when the current time is less than 800 ms after that time of the last
  speech: then, and only then, a send of the frame is registered on the promise of the
  session, and the continuation passes the frame to the session when it runs. When the clock
  has not gone back behind the last speech, the time of the last speech does not go back
  either and stays at or before the current time; and over every chronological history, of
  frames and of all other events, the time of the last speech never goes back.
\<close>

theorem voice_gate_forwards_within_hangover:
  assumes "find (\<lambda>x. procId x = p) (processors s) = Some pr"
    and "s' = step b now ct (Frame p inputData) s"
  shows "calculateRMS b inputData =
           (if inputData = [] then None
            else Some (fsqrt b (fdiv b (foldl (\<lambda>sum x. fadd b sum (fmul b x x)) 0 inputData)
                                       (real (length inputData)))))
    \<and> (inputData \<noteq> [] \<and> fadd b = (+) \<and> fmul b = (*) \<and> fdiv b = (/) \<and> fsqrt b = sqrt \<longrightarrow>
           calculateRMS b inputData =
             Some (sqrt ((\<Sum>x\<leftarrow>inputData. x * x) / real (length inputData))))
    \<and> lastSpeechTimeRef s' =
           (if (\<exists>rms. calculateRMS b inputData = Some rms
                  \<and> rms > 5764607523034235 / 576460752303423488) then now
            else lastSpeechTimeRef s)
    \<and> outbox s' =
           (if now - lastSpeechTimeRef s' < 800
            then outbox s @ [(now, procSession pr, MediaBlob inputData)] else outbox s)
    \<and> thens s' =
           (if now - lastSpeechTimeRef s' < 800
            then thens s @ [(procSession pr, SendJob (MediaBlob inputData))] else thens s)
    \<and> delivered (runJob b (procSession pr, SendJob (MediaBlob inputData)) x) =
           delivered x @ [(procSession pr, MediaBlob inputData)]
    \<and> (lastSpeechTimeRef s \<le> now \<longrightarrow>
           lastSpeechTimeRef s \<le> lastSpeechTimeRef s' \<and> lastSpeechTimeRef s' \<le> now)
    \<and> (chronological t0 evs \<and> lastSpeechTimeRef s \<le> t0 \<longrightarrow>
           lastSpeechTimeRef s \<le> lastSpeechTimeRef (run b evs s))"
proof -
  have a: "aboveThreshold b inputData =
      (\<exists>rms. calculateRMS b inputData = Some rms \<and> rms > 5764607523034235 / 576460752303423488)"
    by (simp add: aboveThreshold_def SILENCE_THRESHOLD_def hundredth_def split: option.splits)
  have s': "s' = onaudioprocess b now (procSession pr) inputData s"
    using assms by simp
  have c1: "calculateRMS b inputData =
           (if inputData = [] then None
            else Some (fsqrt b (fdiv b (foldl (\<lambda>sum x. fadd b sum (fmul b x x)) 0 inputData)
                                       (real (length inputData)))))"
    by (simp add: calculateRMS_def foldl_conv_fold)
  have c2: "inputData \<noteq> [] \<and> fadd b = (+) \<and> fmul b = (*) \<and> fdiv b = (/) \<and> fsqrt b = sqrt \<longrightarrow>
           calculateRMS b inputData =
             Some (sqrt ((\<Sum>x\<leftarrow>inputData. x * x) / real (length inputData)))"
    by (simp add: calculateRMS_def fold_squares)
  have c3: "lastSpeechTimeRef s' =
           (if (\<exists>rms. calculateRMS b inputData = Some rms
                  \<and> rms > 5764607523034235 / 576460752303423488) then now
            else lastSpeechTimeRef s)"
    unfolding s' onaudioprocess_lastSpeech a ..
  have c4: "outbox s' =
           (if now - lastSpeechTimeRef s' < 800
            then outbox s @ [(now, procSession pr, MediaBlob inputData)] else outbox s)"
    unfolding s' onaudioprocess_lastSpeech onaudioprocess_outbox ..
  have c5: "thens s' =
           (if now - lastSpeechTimeRef s' < 800
            then thens s @ [(procSession pr, SendJob (MediaBlob inputData))] else thens s)"
    unfolding s' onaudioprocess_lastSpeech onaudioprocess_thens ..
  have c6: "delivered (runJob b (procSession pr, SendJob (MediaBlob inputData)) x) =
           delivered x @ [(procSession pr, MediaBlob inputData)]"
    by (simp add: Let_def)
  have c7: "lastSpeechTimeRef s \<le> now \<longrightarrow>
           lastSpeechTimeRef s \<le> lastSpeechTimeRef s' \<and> lastSpeechTimeRef s' \<le> now"
    unfolding s' onaudioprocess_lastSpeech by simp
  have c8: "chronological t0 evs \<and> lastSpeechTimeRef s \<le> t0 \<longrightarrow>
           lastSpeechTimeRef s \<le> lastSpeechTimeRef (run b evs s)"
    by (auto intro: lastSpeech_run)
  from c1 c2 c3 c4 c5 c6 c7 c8 show ?thesis by blast
qed

theorem voice_gate_forwards_within_hangover_witness:
  "find (\<lambda>x. procId x = 8) (processors sampleSession) =
      Some \<lparr>procId = 8, procCtx = 2, procSession = 6\<rparr>
   \<and> calculateRMS sampleBrowser [1, 1] = Some 1
   \<and> calculateRMS sampleBrowser [0, 0] = Some 0
   \<and> lastSpeechTimeRef (step sampleBrowser 1000 0 (Frame 8 [1, 1]) sampleSession) = 1000
   \<and> outbox (step sampleBrowser 1000 0 (Frame 8 [1, 1]) sampleSession) =
        outbox sampleSession @ [(1000, 6, MediaBlob [1, 1])]
   \<and> lastSpeechTimeRef (step sampleBrowser 1000 0 (Frame 8 [0, 0]) sampleSession) = 0
   \<and> outbox (step sampleBrowser 1000 0 (Frame 8 [0, 0]) sampleSession) = outbox sampleSession
   \<and> outbox (step sampleBrowser 700 0 (Frame 8 [0, 0]) sampleSession) =
        outbox sampleSession @ [(700, 6, MediaBlob [0, 0])]
   \<and> chronological 830 [(1000, 0, Frame 8 [1, 1]), (2000, 0, Frame 8 [0, 0])]
   \<and> lastSpeechTimeRef sampleSession
        \<le> lastSpeechTimeRef (run sampleBrowser
             [(1000, 0, Frame 8 [1, 1]), (2000, 0, Frame 8 [0, 0])] sampleSession)"
proof -
  note T = voice_gate_forwards_within_hangover [where p = 8 and s = sampleSession
      and pr = "\<lparr>procId = 8, procCtx = 2, procSession = 6\<rparr>" and b = sampleBrowser
      and ct = 0 and ?t0.0 = 830
      and evs = "[(1000, 0, Frame 8 [1, 1]), (2000, 0, Frame 8 [0, 0])]", OF _ refl]
  have f: "find (\<lambda>x. procId x = 8) (processors sampleSession) =
      Some \<lparr>procId = 8, procCtx = 2, procSession = 6\<rparr>"
    by (simp add: sampleSession_def)
  have l: "lastSpeechTimeRef sampleSession = 0" "outbox sampleSession = [(30, 6, TextContent greeting)]"
    by (simp_all add: sampleSession_def)
  have v: "calculateRMS sampleBrowser [1, 1] = Some 1" "calculateRMS sampleBrowser [0, 0] = Some 0"
    by (simp_all add: calculateRMS_def sampleBrowser_def)
  have c: "chronological 830 [(1000, 0, Frame 8 [1, 1]), (2000, 0, Frame 8 [0, 0])]"
    by simp
  have a: "lastSpeechTimeRef (step sampleBrowser 1000 0 (Frame 8 [1, 1]) sampleSession) = 1000
     \<and> outbox (step sampleBrowser 1000 0 (Frame 8 [1, 1]) sampleSession) =
        outbox sampleSession @ [(1000, 6, MediaBlob [1, 1])]"
    using T [where inputData = "[1, 1]" and now = 1000, OF f] l
    by (simp add: v del: step.simps run.simps chronological.simps)
  have b: "lastSpeechTimeRef (step sampleBrowser 1000 0 (Frame 8 [0, 0]) sampleSession) = 0
     \<and> outbox (step sampleBrowser 1000 0 (Frame 8 [0, 0]) sampleSession) = outbox sampleSession"
    using T [where inputData = "[0, 0]" and now = 1000, OF f] l
    by (simp add: v del: step.simps run.simps chronological.simps)
  have d: "outbox (step sampleBrowser 700 0 (Frame 8 [0, 0]) sampleSession) =
        outbox sampleSession @ [(700, 6, MediaBlob [0, 0])]"
    using T [where inputData = "[0, 0]" and now = 700, OF f] l
    by (simp add: v del: step.simps run.simps chronological.simps)
  have r: "lastSpeechTimeRef sampleSession
        \<le> lastSpeechTimeRef (run sampleBrowser
             [(1000, 0, Frame 8 [1, 1]), (2000, 0, Frame 8 [0, 0])] sampleSession)"
    using T [where inputData = "[1, 1]" and now = 1000, OF f] c l(1)
    by (simp del: step.simps run.simps chronological.simps)
  from f v a b d c r show ?thesis by blast
qed

subsection \<open>The teardown when only the guarded calls throw\<close>




















lemma speakingSession_reached:
  "run sampleBrowser (sampleHistory @ speakingHistory) initial = speakingSession"
  by (simp add: run_append sampleSession_reached)
     (simp add: sampleSession_def speakingHistory_def speakingSession_def audioMessage_def
        onmessage_def decodeSettled_def citationBranch_def resetIdleTimer_def setTimer_def
        clearTimeout_def IDLE_TIMEOUT_MS_def sampleBrowser_def Let_def)

text \<open>The source guards no other call: an exception from the first call of the teardown, say,
  would end it there, with the flags set and nothing else released.\<close>

lemma unguarded_throw_ends_teardown:
  assumes "keepAliveIntervalRef s = Some h" and "callThrows b (ClearInterval h)"
  shows "stopLiveSession b False s =
     Thrown (s\<lparr>isLiveActive := False, connectionStatus := disconnected,
               released := released s @ [(ClearInterval h, True)]\<rparr>)"
  using assms by (simp add: stopLiveSession_def cancelKeepAlive_def invoke_def Let_def)



end
